theory Spec2Isabelle
  imports Main
begin

section \<open>Python values used by \<open>scripts/math_helper.py\<close>\<close>

text \<open>
  The script computes with \<open>decimal.Decimal\<close> under the context it sets at import time
  (\<open>getcontext().prec = 50\<close>, every other field at its default: rounding
  \<open>ROUND_HALF_EVEN\<close>, \<open>Emin = -999999\<close>, \<open>Emax = 999999\<close>, \<open>clamp = 0\<close>, traps on
  \<open>InvalidOperation\<close>, \<open>DivisionByZero\<close> and \<open>Overflow\<close>).

  A \<open>Decimal\<close> is a sign, a coefficient and an exponent, or an infinity, or a NaN
  (quiet or signalling). The sign and the payload of a NaN never reach a result of
  the script (every path ends in \<open>int(value)\<close>, which raises on a NaN), so a NaN
  keeps only whether it signals.
\<close>

datatype decimal =
    Fin bool nat int    \<comment> \<open>sign (True is negative), coefficient, exponent\<close>
  | Inf bool            \<comment> \<open>sign\<close>
  | NaN bool            \<comment> \<open>True is a signalling NaN\<close>

text \<open>
  The exceptions the script can meet, named by the condition the decimal module
  signals. \<open>ConversionSyntax\<close>, \<open>DivisionUndefined\<close> and \<open>InvalidOperation\<close> are all raised
  as the Python class \<open>decimal.InvalidOperation\<close>; \<open>ValueError\<close> and \<open>OverflowError\<close> come
  from \<open>int(Decimal)\<close> on a NaN and on an infinity.

  One part of the library is not embedded: the power of a positive base other than one
  to a non-zero finite exponent, when the result needs the logarithm and exponential
  series (or lies outside the range of exact integer powers written out in
  \<open>power_finite\<close>). It is a parameter \<open>power_rest\<close> of \<open>dec_pow\<close> and of every function of
  the script that takes a power, so that each theorem about them holds whatever value
  or exception the library gives there.
\<close>

datatype error =
    ConversionSyntax | InvalidOperation | DivisionUndefined | DivisionByZero
  | Overflow | ValueError | OverflowError

definition and_then :: "error + 'a \<Rightarrow> ('a \<Rightarrow> error + 'b) \<Rightarrow> error + 'b" where
  "and_then m f = (case m of Inl e \<Rightarrow> Inl e | Inr x \<Rightarrow> f x)"

subsection \<open>The context\<close>

definition prec :: nat where "prec = 50"
definition Emax :: int where "Emax = 999999"
definition Emin :: int where "Emin = - 999999"
definition Etiny :: int where "Etiny = Emin - int prec + 1"
definition Etop :: int where "Etop = Emax - int prec + 1"

subsection \<open>Digits\<close>

text \<open>\<open>len(str(n))\<close> for a non-negative integer: the number of decimal digits, one for zero.\<close>

fun ndigits :: "nat \<Rightarrow> nat" where
  "ndigits n = (if n < 10 then 1 else Suc (ndigits (n div 10)))"

declare ndigits.simps [simp del]

text \<open>\<open>int(s)\<close> for a string of ASCII digits, most significant first; the empty string
  (where the library writes \<open>int(s or '0')\<close>) is zero.\<close>

definition isdigit :: "char \<Rightarrow> bool" where
  "isdigit c = (48 \<le> (of_char c :: nat) \<and> (of_char c :: nat) \<le> 57)"

definition digits_val :: "string \<Rightarrow> nat" where
  "digits_val s = foldl (\<lambda>a c. 10 * a + ((of_char c :: nat) - 48)) 0 s"

subsection \<open>Rounding to the context: \<open>Decimal._fix\<close>\<close>

text \<open>
  \<open>_round_half_even(self, digits)\<close>: of the coefficient \<open>c\<close>, \<open>digits\<close> leading digits are
  kept and \<open>k = len - digits\<close> are dropped. The answer is 1 to round away from zero,
  0 when the dropped digits are all zero, -1 to truncate an inexact value.
\<close>

definition round_half_even :: "nat \<Rightarrow> nat \<Rightarrow> int" where
  "round_half_even c digits =
     (let k = ndigits c - digits; rest = c mod 10 ^ k; half = 5 * 10 ^ (k - 1) in
      if rest = half \<and> even (c div 10 ^ k) then - 1
      else if half \<le> rest then 1
      else if rest = 0 then 0
      else - 1)"

text \<open>The rounding branch of \<open>_fix\<close>, entered when the exponent is below \<open>exp_min\<close>.\<close>

definition fix_round :: "bool \<Rightarrow> nat \<Rightarrow> int \<Rightarrow> int \<Rightarrow> error + decimal" where
  "fix_round sign c e exp_min =
     (let digits = int (ndigits c) + e - exp_min;
          c1 = (if digits < 0 then 1 else c);
          digits1 = (if digits < 0 then 0 else nat digits);
          changed = round_half_even c1 digits1;
          coeff = c1 div 10 ^ (ndigits c1 - digits1);
          carry = (0 < changed \<and> prec < ndigits (coeff + 1));
          coeff1 = (if 0 < changed then (if carry then (coeff + 1) div 10 else coeff + 1)
                    else coeff);
          exp_min1 = (if carry then exp_min + 1 else exp_min)
      in if Etop < exp_min1 then Inl Overflow else Inr (Fin sign coeff1 exp_min1))"

definition dec_fix :: "decimal \<Rightarrow> error + decimal" where
  "dec_fix d =
     (case d of
        Fin sign c e \<Rightarrow>
          if c = 0 then Inr (Fin sign 0 (min (max e Etiny) Emax))
          else
            let exp_min = int (ndigits c) + e - int prec in
            if Etop < exp_min then Inl Overflow
            else
              let exp_min1 = max exp_min Etiny in
              if e < exp_min1 then fix_round sign c e exp_min1
              else Inr d
      | _ \<Rightarrow> Inr d)"

subsection \<open>NaN propagation: \<open>Decimal._check_nans\<close>\<close>

definition check_nans :: "decimal \<Rightarrow> decimal \<Rightarrow> (error + decimal) option" where
  "check_nans a b =
     (if a = NaN True then Some (Inl InvalidOperation)
      else if b = NaN True then Some (Inl InvalidOperation)
      else if a = NaN False then Some (Inr a)
      else if b = NaN False then Some (Inr b)
      else None)"

subsection \<open>Multiplication, division and addition\<close>

text \<open>\<open>Decimal.__mul__\<close>: its special cases for a zero or a power of ten build the same
  triple as the general case, so one product stands for all four.\<close>

definition dec_mul :: "decimal \<Rightarrow> decimal \<Rightarrow> error + decimal" where
  "dec_mul a b =
     (case check_nans a b of
        Some r \<Rightarrow> r
      | None \<Rightarrow>
          (case (a, b) of
             (Inf sa, Fin sb cb eb) \<Rightarrow>
               if cb = 0 then Inl InvalidOperation else Inr (Inf (sa \<noteq> sb))
           | (Inf sa, Inf sb) \<Rightarrow> Inr (Inf (sa \<noteq> sb))
           | (Fin sa ca ea, Inf sb) \<Rightarrow>
               if ca = 0 then Inl InvalidOperation else Inr (Inf (sa \<noteq> sb))
           | (Fin sa ca ea, Fin sb cb eb) \<Rightarrow> dec_fix (Fin (sa \<noteq> sb) (ca * cb) (ea + eb))
           | _ \<Rightarrow> Inl InvalidOperation))"

text \<open>The loop of \<open>__truediv__\<close> that brings an exact quotient towards the ideal exponent.\<close>

function div_ideal :: "nat \<Rightarrow> int \<Rightarrow> int \<Rightarrow> nat \<times> int" where
  "div_ideal coeff exp ideal_exp =
     (if exp < ideal_exp \<and> coeff mod 10 = 0 then div_ideal (coeff div 10) (exp + 1) ideal_exp
      else (coeff, exp))"
  by pat_completeness auto
termination
  by (relation "measure (\<lambda>(coeff, exp, ideal_exp). nat (ideal_exp - exp))") auto

declare div_ideal.simps [simp del]

definition dec_truediv :: "decimal \<Rightarrow> decimal \<Rightarrow> error + decimal" where
  "dec_truediv a b =
     (case check_nans a b of
        Some r \<Rightarrow> r
      | None \<Rightarrow>
          (case (a, b) of
             (Inf sa, Inf sb) \<Rightarrow> Inl InvalidOperation
           | (Inf sa, Fin sb cb eb) \<Rightarrow> Inr (Inf (sa \<noteq> sb))
           | (Fin sa ca ea, Inf sb) \<Rightarrow> Inr (Fin (sa \<noteq> sb) 0 Etiny)
           | (Fin sa ca ea, Fin sb cb eb) \<Rightarrow>
               if cb = 0 then (if ca = 0 then Inl DivisionUndefined else Inl DivisionByZero)
               else if ca = 0 then dec_fix (Fin (sa \<noteq> sb) 0 (ea - eb))
               else
                 let shift = int (ndigits cb) - int (ndigits ca) + int prec + 1;
                     exp = ea - eb - shift;
                     num = (if 0 \<le> shift then ca * 10 ^ nat shift else ca);
                     den = (if 0 \<le> shift then cb else cb * 10 ^ nat (- shift));
                     coeff = num div den;
                     remainder = num mod den
                 in if remainder \<noteq> 0
                    then dec_fix (Fin (sa \<noteq> sb) (if coeff mod 5 = 0 then coeff + 1 else coeff) exp)
                    else (case div_ideal coeff exp (ea - eb) of
                            (coeff1, exp1) \<Rightarrow> dec_fix (Fin (sa \<noteq> sb) coeff1 exp1))
           | _ \<Rightarrow> Inl InvalidOperation))"

text \<open>\<open>Decimal._rescale(exp, ROUND_HALF_EVEN)\<close> and \<open>_normalize(op1, op2, prec)\<close>, as
  \<open>__add__\<close> uses them. The work representation of \<open>_normalize\<close> is the pair of a
  coefficient and an exponent; the signs are handled by the caller.\<close>

definition rescale :: "decimal \<Rightarrow> int \<Rightarrow> decimal" where
  "rescale d exp =
     (case d of
        Fin sign c e \<Rightarrow>
          if c = 0 then Fin sign 0 exp
          else if exp \<le> e then Fin sign (c * 10 ^ nat (e - exp)) exp
          else
            let digits = int (ndigits c) + e - exp;
                c1 = (if digits < 0 then 1 else c);
                digits1 = (if digits < 0 then 0 else nat digits);
                changed = round_half_even c1 digits1;
                coeff = c1 div 10 ^ (ndigits c1 - digits1)
            in Fin sign (if changed = 1 then coeff + 1 else coeff) exp
      | _ \<Rightarrow> d)"

definition normalize :: "nat \<times> int \<Rightarrow> nat \<times> int \<Rightarrow> (nat \<times> int) \<times> (nat \<times> int)" where
  "normalize op1 op2 =
     (let swap = (snd op1 < snd op2);
          tmp = (if swap then op2 else op1);
          other = (if swap then op1 else op2);
          exp = snd tmp + min (- 1) (int (ndigits (fst tmp)) - int prec - 2);
          other1 = (if int (ndigits (fst other)) + snd other - 1 < exp then (1, exp) else other);
          tmp1 = (fst tmp * 10 ^ nat (snd tmp - snd other1), snd other1)
      in if swap then (other1, tmp1) else (tmp1, other1))"

definition dec_add :: "decimal \<Rightarrow> decimal \<Rightarrow> error + decimal" where
  "dec_add a b =
     (case check_nans a b of
        Some r \<Rightarrow> r
      | None \<Rightarrow>
          (case (a, b) of
             (Inf sa, Inf sb) \<Rightarrow> if sa \<noteq> sb then Inl InvalidOperation else Inr a
           | (Inf sa, Fin sb cb eb) \<Rightarrow> Inr a
           | (Fin sa ca ea, Inf sb) \<Rightarrow> Inr b
           | (Fin sa ca ea, Fin sb cb eb) \<Rightarrow>
               let exp = min ea eb in
               if ca = 0 \<and> cb = 0 then dec_fix (Fin (sa \<and> sb) 0 exp)
               else if ca = 0 then dec_fix (rescale b (max exp (eb - int prec - 1)))
               else if cb = 0 then dec_fix (rescale a (max exp (ea - int prec - 1)))
               else
                 (case normalize (ca, ea) (cb, eb) of
                    ((i1, e1), (i2, e2)) \<Rightarrow>
                      if sa \<noteq> sb then
                        (if i1 = i2 then dec_fix (Fin False 0 exp)
                         else if i1 < i2 then dec_fix (Fin sb (i2 - i1) e2)
                         else dec_fix (Fin sa (i1 - i2) e1))
                      else dec_fix (Fin sa (i1 + i2) e1))
           | _ \<Rightarrow> Inl InvalidOperation))"

subsection \<open>Conversion to an integer: \<open>Decimal.__int__\<close>\<close>

definition trunc :: "bool \<Rightarrow> nat \<Rightarrow> int \<Rightarrow> int" where
  "trunc sign c e =
     (if sign then - 1 else 1) *
     (if 0 \<le> e then int c * 10 ^ nat e else int (c div 10 ^ nat (- e)))"

definition dec_int :: "decimal \<Rightarrow> error + int" where
  "dec_int d =
     (case d of
        NaN s \<Rightarrow> Inl ValueError
      | Inf s \<Rightarrow> Inl OverflowError
      | Fin sign c e \<Rightarrow> Inr (trunc sign c e))"

subsection \<open>Power: \<open>Decimal.__pow__\<close>\<close>

text \<open>\<open>not d\<close> (a finite zero), the sign bit, \<open>_isinteger\<close> and \<open>_iseven\<close>.\<close>

definition is_zero :: "decimal \<Rightarrow> bool" where
  "is_zero d = (case d of Fin sign c e \<Rightarrow> c = 0 | _ \<Rightarrow> False)"

definition dec_sign :: "decimal \<Rightarrow> bool" where
  "dec_sign d = (case d of Fin sign c e \<Rightarrow> sign | Inf sign \<Rightarrow> sign | NaN s \<Rightarrow> False)"

definition isinteger :: "decimal \<Rightarrow> bool" where
  "isinteger d =
     (case d of
        Fin sign c e \<Rightarrow> (if 0 \<le> e then True else c mod 10 ^ nat (- e) = 0)
      | _ \<Rightarrow> False)"

definition iseven :: "decimal \<Rightarrow> bool" where
  "iseven d =
     (case d of
        Fin sign c e \<Rightarrow> (if c = 0 \<or> 0 < e then True else even (c div 10 ^ nat (- e)))
      | _ \<Rightarrow> True)"

text \<open>The loop \<open>while xc % 10 == 0: xc //= 10; xe += 1\<close> of \<open>_power_exact\<close>, which the
  library runs on a non-zero coefficient only.\<close>

function strip10 :: "nat \<Rightarrow> int \<Rightarrow> nat \<times> int" where
  "strip10 c e = (if 0 < c \<and> c mod 10 = 0 then strip10 (c div 10) (e + 1) else (c, e))"
  by pat_completeness auto
termination
  by (relation "measure (\<lambda>(c, e). c)") auto

declare strip10.simps [simp del]

text \<open>\<open>_log10_lb(c)\<close>: a lower bound of \<open>100 * log10(c)\<close>, from the leading digit.\<close>

definition log10_lb :: "nat \<Rightarrow> nat" where
  "log10_lb c =
     100 * ndigits c - [0, 100, 70, 53, 40, 31, 23, 16, 10, 5] ! (c div 10 ^ (ndigits c - 1))"

text \<open>
  \<open>_power_exact(other, prec + 1)\<close> for a positive base \<open>c * 10^e\<close> other than one and a
  positive integer exponent \<open>m\<close>: the exact power when its coefficient fits in
  \<open>prec + 1\<close> digits, padded with zeros towards the ideal exponent \<open>e * m\<close>.
\<close>

definition power_exact :: "nat \<Rightarrow> int \<Rightarrow> nat \<Rightarrow> (nat \<times> int) option" where
  "power_exact c e m =
     (let p = prec + 1; xc = fst (strip10 c e); xe = snd (strip10 c e);
          ideal_exponent = e * int m
      in if xc = 1 then
           (let exponent = xe * int m; zeros = min (exponent - ideal_exponent) (int p - 1)
            in Some (10 ^ nat zeros, exponent - zeros))
         else if p * 100 div log10_lb xc < m then None
         else if 10 ^ p < xc ^ m then None
         else
           (let zeros = min (xe * int m - ideal_exponent) (int p - int (ndigits (xc ^ m)))
            in Some (xc ^ m * 10 ^ nat zeros, xe * int m - zeros)))"

text \<open>
  The last part of \<open>__pow__\<close>: a positive finite base other than one, a non-zero finite
  exponent. Written out for a positive integer exponent below \<open>10^6\<close> and a base between
  \<open>10^-9\<close> and \<open>10^10\<close>, where the library's crude overflow test cannot fire (its bound
  is at most 5) and \<open>_power_exact\<close> decides. Everywhere else, and where \<open>_power_exact\<close>
  finds no exact result, the answer is the one of the library's remaining code (the
  overflow test on larger operands, \<open>_power_exact\<close> on negative and fractional exponents,
  the inexact power \<open>_dpower\<close>, and the final rounding), which \<open>power_rest\<close> stands for:
  it is given the sign of the result, the base made positive, and the exponent.
\<close>

type_synonym power = "bool \<Rightarrow> decimal \<Rightarrow> decimal \<Rightarrow> error + decimal"

definition power_finite ::
    "power \<Rightarrow> bool \<Rightarrow> nat \<Rightarrow> int \<Rightarrow> bool \<Rightarrow> nat \<Rightarrow> int \<Rightarrow> error + decimal" where
  "power_finite power_rest result_sign c e so co eo =
     (let self_adj = int (ndigits c) + e - 1; other_adj = int (ndigits co) + eo - 1 in
      if isinteger (Fin so co eo) \<and> so = False \<and> - 9 \<le> self_adj \<and> self_adj \<le> 9 \<and> other_adj \<le> 5
      then (case power_exact c e (nat (trunc so co eo)) of
              Some (xc, xe) \<Rightarrow> dec_fix (Fin result_sign xc xe)
            | None \<Rightarrow> power_rest result_sign (Fin False c e) (Fin so co eo))
      else power_rest result_sign (Fin False c e) (Fin so co eo))"

text \<open>\<open>1 ** other\<close>: the value is one, the exponent depends on \<open>other\<close>.\<close>

definition pow_one :: "bool \<Rightarrow> int \<Rightarrow> decimal \<Rightarrow> decimal" where
  "pow_one result_sign e other =
     (let exp =
        (case other of
           Fin so co eo \<Rightarrow>
             (if isinteger other then
                (let multiplier =
                   (if so then 0
                    else if int prec < trunc so co eo then int prec
                    else trunc so co eo)
                 in max (e * multiplier) (1 - int prec))
              else 1 - int prec)
         | _ \<Rightarrow> 1 - int prec)
      in Fin result_sign (10 ^ nat (- exp)) exp)"

definition dec_pow :: "power \<Rightarrow> decimal \<Rightarrow> decimal \<Rightarrow> error + decimal" where
  "dec_pow power_rest self other =
     (case check_nans self other of
        Some r \<Rightarrow> r
      | None \<Rightarrow>
          if is_zero other then (if is_zero self then Inl InvalidOperation else Inr (Fin False 1 0))
          else if dec_sign self \<and> isinteger other = False \<and> is_zero self = False
          then Inl InvalidOperation
          else
            let result_sign = (dec_sign self \<and> isinteger other \<and> iseven other = False) in
            (case self of
               Fin s c e \<Rightarrow>
                 if c = 0 then
                   (if dec_sign other then Inr (Inf result_sign) else Inr (Fin result_sign 0 0))
                 else if e \<le> 0 \<and> c = 10 ^ nat (- e) then Inr (pow_one result_sign e other)
                 else
                   (case other of
                      Fin so co eo \<Rightarrow> power_finite power_rest result_sign c e so co eo
                    | _ \<Rightarrow>
                      if dec_sign other = (int (ndigits c) + e - 1 < 0)
                      then Inr (Inf result_sign) else Inr (Fin result_sign 0 0))
             | _ \<Rightarrow>
                 if dec_sign other then Inr (Fin result_sign 0 0) else Inr (Inf result_sign)))"

subsection \<open>Strings: \<open>hex\<close>, slicing and \<open>str.zfill\<close>\<close>

text \<open>A Python \<open>str\<close> is modelled as a list of characters whose code points are below 256.\<close>

fun hex_digits :: "nat \<Rightarrow> string" where
  "hex_digits n =
     (if n < 16 then [''0123456789abcdef'' ! n]
      else hex_digits (n div 16) @ [''0123456789abcdef'' ! (n mod 16)])"

declare hex_digits.simps [simp del]

text \<open>The builtin \<open>hex\<close>: a negative integer keeps its sign in front of the prefix.\<close>

definition hex :: "int \<Rightarrow> string" where
  "hex i = (if i < 0 then ''-0x'' @ hex_digits (nat (- i)) else ''0x'' @ hex_digits (nat i))"

text \<open>\<open>s.zfill(width)\<close>: zeros on the left up to \<open>width\<close>, after a leading sign if there is one.\<close>

definition zfill :: "nat \<Rightarrow> string \<Rightarrow> string" where
  "zfill width s =
     (if width \<le> length s then s
      else
        (case s of
           [] \<Rightarrow> replicate width (CHR ''0'')
         | c # r \<Rightarrow>
             if c = CHR ''+'' \<or> c = CHR ''-''
             then c # replicate (width - length s) (CHR ''0'') @ r
             else replicate (width - length s) (CHR ''0'') @ s))"

subsection \<open>Parsing: \<open>Decimal(str)\<close>\<close>

text \<open>
  The constructor strips white space, drops underscores and matches, without regard to
  case, a sign followed by digits with an optional point and an optional exponent, or
  \<open>Inf\<close>, \<open>Infinity\<close>, \<open>NaN\<close> or \<open>sNaN\<close> with optional payload digits. The conversion is
  exact whatever the context; CPython's decimal module refuses a literal whose exponent
  leaves the range of its exact context (adjusted exponent above
  \<open>999999999999999999\<close>, exponent below \<open>-1999999999999999997\<close>).
\<close>

definition isspace :: "char \<Rightarrow> bool" where
  "isspace c =
     (let n = (of_char c :: nat) in
      (9 \<le> n \<and> n \<le> 13) \<or> (28 \<le> n \<and> n \<le> 32) \<or> n = 133 \<or> n = 160)"

definition strip :: "string \<Rightarrow> string" where
  "strip s = rev (dropWhile isspace (rev (dropWhile isspace s)))"

definition lower :: "char \<Rightarrow> char" where
  "lower c =
     (if 65 \<le> (of_char c :: nat) \<and> (of_char c :: nat) \<le> 90
      then char_of ((of_char c :: nat) + 32) else c)"

definition parse_exp :: "string \<Rightarrow> int option" where
  "parse_exp s =
     (let neg = (s \<noteq> [] \<and> hd s = CHR ''-'');
          ds = (if s \<noteq> [] \<and> (hd s = CHR ''-'' \<or> hd s = CHR ''+'') then tl s else s)
      in if ds \<noteq> [] \<and> list_all isdigit ds
         then Some (if neg then - int (digits_val ds) else int (digits_val ds))
         else None)"

definition parse_number :: "string \<Rightarrow> (nat \<times> int) option" where
  "parse_number body =
     (let intpart = takeWhile isdigit body;
          r1 = dropWhile isdigit body;
          has_point = (r1 \<noteq> [] \<and> hd r1 = CHR ''.'');
          fracpart = (if has_point then takeWhile isdigit (tl r1) else []);
          r2 = (if has_point then dropWhile isdigit (tl r1) else r1)
      in if intpart = [] \<and> fracpart = [] then None
         else if r2 = [] then Some (digits_val (intpart @ fracpart), - int (length fracpart))
         else if lower (hd r2) = CHR ''e'' then
           (case parse_exp (tl r2) of
              Some x \<Rightarrow> Some (digits_val (intpart @ fracpart), x - int (length fracpart))
            | None \<Rightarrow> None)
         else None)"

definition parse_nan :: "string \<Rightarrow> bool option" where
  "parse_nan body =
     (let l = map lower body;
          signal = (l \<noteq> [] \<and> hd l = CHR ''s'');
          r = (if signal then tl l else l)
      in if take 3 r = ''nan'' \<and> list_all isdigit (drop 3 r) then Some signal else None)"

definition exact_limits :: "nat \<Rightarrow> int \<Rightarrow> bool" where
  "exact_limits c e =
     (- 1999999999999999997 \<le> e \<and>
      (if c = 0 then e \<le> 999999999999999999
       else int (ndigits c) + e - 1 \<le> 999999999999999999))"

definition Decimal :: "string \<Rightarrow> error + decimal" where
  "Decimal value =
     (let s = filter (\<lambda>c. c \<noteq> CHR ''_'') (strip value);
          neg = (s \<noteq> [] \<and> hd s = CHR ''-'');
          body = (if s \<noteq> [] \<and> (hd s = CHR ''-'' \<or> hd s = CHR ''+'') then tl s else s)
      in case parse_number body of
           Some (c, e) \<Rightarrow> if exact_limits c e then Inr (Fin neg c e) else Inl InvalidOperation
         | None \<Rightarrow>
             if map lower body = ''inf'' \<or> map lower body = ''infinity'' then Inr (Inf neg)
             else (case parse_nan body of
                     Some signal \<Rightarrow> Inr (NaN signal)
                   | None \<Rightarrow> Inl ConversionSyntax))"

section \<open>The functions of \<open>scripts/math_helper.py\<close>\<close>

text \<open>
  A name of the script that starts with an underscore carries the prefix \<open>impl_\<close> here.
  Each function returns \<open>Inr\<close> of its result or \<open>Inl\<close> of the exception it raises; the
  operands are evaluated in Python's order, left to right. Where the script rebinds an
  argument to its parsed value (\<open>principal = Decimal(principal)\<close>), the parsed value is
  named with the suffix \<open>_decimal\<close>, as \<open>calculate_share_price\<close> does itself. The
  argument \<open>principal\<close> is written \<open>principal'\<close>, the plain name being a constant of HOL.
\<close>

definition impl_format_result :: "decimal \<Rightarrow> error + string" where
  "impl_format_result value =
     and_then (dec_int value) (\<lambda>int_value.
       let hex_value = zfill 64 (drop 2 (hex int_value)) in
       Inr (''0x'' @ hex_value))"

definition impl_calculate_compound_yield ::
    "power \<Rightarrow> decimal \<Rightarrow> decimal \<Rightarrow> decimal \<Rightarrow> error + decimal" where
  "impl_calculate_compound_yield power_rest principal' rate_ppm time_seconds =
     and_then (Decimal ''1000000'') (\<lambda>million.
     and_then (dec_truediv rate_ppm million) (\<lambda>daily_rate.
     and_then (Decimal ''86400'') (\<lambda>day.
     and_then (dec_truediv time_seconds day) (\<lambda>time_days.
     and_then (Decimal ''1'') (\<lambda>one.
     and_then (dec_add one daily_rate) (\<lambda>base.
     and_then (dec_pow power_rest base time_days) (\<lambda>growth.
     dec_mul principal' growth)))))))"

definition impl_calculate_linear_yield ::
    "decimal \<Rightarrow> decimal \<Rightarrow> decimal \<Rightarrow> error + decimal" where
  "impl_calculate_linear_yield principal' rate_ppm time_seconds =
     and_then (dec_mul principal' rate_ppm) (\<lambda>pr.
     and_then (dec_mul pr time_seconds) (\<lambda>prt.
     and_then (Decimal ''1000000'') (\<lambda>million.
     and_then (Decimal ''86400'') (\<lambda>day.
     and_then (dec_mul million day) (\<lambda>divisor.
     and_then (dec_truediv prt divisor) (\<lambda>yield_amount.
     dec_add principal' yield_amount))))))"

definition impl_calculate_share_price ::
    "power \<Rightarrow> decimal \<Rightarrow> decimal \<Rightarrow> decimal \<Rightarrow> decimal \<Rightarrow> error + decimal" where
  "impl_calculate_share_price power_rest pool_size total_supply rate_ppm time_seconds =
     and_then (impl_calculate_compound_yield power_rest pool_size rate_ppm time_seconds) (\<lambda>total_assets.
     and_then (Decimal ''1000000000000000000'') (\<lambda>e18.
     and_then (dec_mul total_assets e18) (\<lambda>scaled.
     dec_truediv scaled total_supply)))"

definition calculate_compound_yield ::
    "power \<Rightarrow> string \<Rightarrow> string \<Rightarrow> string \<Rightarrow> error + string" where
  "calculate_compound_yield power_rest principal' rate_ppm time_seconds =
     and_then (Decimal principal') (\<lambda>principal_decimal.
     and_then (Decimal rate_ppm) (\<lambda>rate_ppm_decimal.
     and_then (Decimal time_seconds) (\<lambda>time_seconds_decimal.
     and_then (impl_calculate_compound_yield power_rest principal_decimal rate_ppm_decimal
                 time_seconds_decimal) (\<lambda>final_amount.
     impl_format_result final_amount))))"

definition calculate_linear_yield :: "string \<Rightarrow> string \<Rightarrow> string \<Rightarrow> error + string" where
  "calculate_linear_yield principal' rate_ppm time_seconds =
     and_then (Decimal principal') (\<lambda>principal_decimal.
     and_then (Decimal rate_ppm) (\<lambda>rate_ppm_decimal.
     and_then (Decimal time_seconds) (\<lambda>time_seconds_decimal.
     and_then (impl_calculate_linear_yield principal_decimal rate_ppm_decimal
                 time_seconds_decimal) (\<lambda>final_amount.
     impl_format_result final_amount))))"

definition calculate_share_price ::
    "power \<Rightarrow> string \<Rightarrow> string \<Rightarrow> string \<Rightarrow> string \<Rightarrow> error + string" where
  "calculate_share_price power_rest pool_size total_supply rate_ppm time_seconds =
     (if total_supply = ''0''
      then and_then (Decimal ''1000000000000000000'') impl_format_result
      else
        and_then (Decimal pool_size) (\<lambda>pool_size_decimal.
        and_then (Decimal total_supply) (\<lambda>total_supply_decimal.
        and_then (Decimal rate_ppm) (\<lambda>rate_ppm_decimal.
        and_then (Decimal time_seconds) (\<lambda>time_seconds_decimal.
        and_then (impl_calculate_share_price power_rest pool_size_decimal total_supply_decimal
                    rate_ppm_decimal time_seconds_decimal) (\<lambda>share_price_e18.
        impl_format_result share_price_e18))))))"

section \<open>The order of two results\<close>


section \<open>Evaluation of the constants of the script\<close>

lemmas parse_defs =
  Decimal_def parse_number_def parse_exp_def parse_nan_def strip_def isspace_def
  isdigit_def lower_def digits_val_def exact_limits_def

lemma replicate_num: "replicate (numeral k) x = x # replicate (pred_numeral k) x"
  by (simp add: numeral_eq_Suc)

lemmas fmt_defs =
  impl_format_result_def and_then_def dec_int_def trunc_def hex_def zfill_def replicate_num

lemma Decimal_0: "Decimal ''0'' = Inr (Fin False 0 0)"
  by (simp add: parse_defs ndigits.simps)

lemma Decimal_1: "Decimal ''1'' = Inr (Fin False 1 0)"
  by (simp add: parse_defs ndigits.simps)

lemma Decimal_million: "Decimal ''1000000'' = Inr (Fin False 1000000 0)"
  by (simp add: parse_defs ndigits.simps)

lemma Decimal_day: "Decimal ''86400'' = Inr (Fin False 86400 0)"
  by (simp add: parse_defs ndigits.simps)

lemma Decimal_e18: "Decimal ''1000000000000000000'' = Inr (Fin False 1000000000000000000 0)"
  by (simp add: parse_defs ndigits.simps)

lemma format_e18:
  "impl_format_result (Fin False 1000000000000000000 0) =
     Inr ''0x0000000000000000000000000000000000000000000000000de0b6b3a7640000''"
  by (simp add: fmt_defs hex_digits.simps)

lemma Decimal_1000: "Decimal ''1000'' = Inr (Fin False 1000 0)"
  by (simp add: parse_defs ndigits.simps)

lemma Decimal_0_0: "Decimal ''0.0'' = Inr (Fin False 0 (- 1))"
  by (simp add: parse_defs ndigits.simps)

lemma Decimal_00: "Decimal ''00'' = Inr (Fin False 0 0)"
  by (simp add: parse_defs ndigits.simps)

lemma format_1000:
  "impl_format_result (Fin False 1000 0) =
     Inr ''0x00000000000000000000000000000000000000000000000000000000000003e8''"
  by (simp add: fmt_defs hex_digits.simps)

section \<open>Facts about digit counts and rounding\<close>

text \<open>A coefficient of at most \<open>prec\<close> digits whose exponent is in range is left alone
  by \<open>_fix\<close>: no operation below loses a digit of such a value.\<close>

lemma ndigits_pos: "0 < ndigits n"
  by (subst ndigits.simps) simp

lemma ndigits_le: "n < 10 ^ k \<Longrightarrow> 0 < k \<Longrightarrow> ndigits n \<le> k"
proof (induction k arbitrary: n)
  case 0
  then show ?case by simp
next
  case (Suc k)
  show ?case
  proof (cases "n < 10")
    case True
    then show ?thesis by (subst ndigits.simps) simp
  next
    case False
    then have k: "0 < k" using Suc.prems by (cases k) auto
    have "n div 10 < 10 ^ k" using Suc.prems by (simp add: less_mult_imp_div_less mult.commute)
    then have "ndigits (n div 10) \<le> k" using Suc.IH k by blast
    then show ?thesis using False by (subst ndigits.simps) simp
  qed
qed

lemma ndigits_lower: "0 < n \<Longrightarrow> 10 ^ (ndigits n - 1) \<le> n"
proof (induction n rule: ndigits.induct)
  case (1 n)
  show ?case
  proof (cases "n < 10")
    case True
    then show ?thesis using "1.prems" by (subst ndigits.simps) simp
  next
    case False
    then have "0 < n div 10" by simp
    then have "10 ^ (ndigits (n div 10) - 1) \<le> n div 10" using "1.IH" False by simp
    then have "10 * 10 ^ (ndigits (n div 10) - 1) \<le> n" by simp
    moreover have "ndigits n - 1 = Suc (ndigits (n div 10) - 1)"
      using False ndigits_pos [of "n div 10"] by (subst ndigits.simps) simp
    ultimately show ?thesis by simp
  qed
qed

lemma ndigits_upper: "n < 10 ^ ndigits n"
proof (induction n rule: ndigits.induct)
  case (1 n)
  show ?case
  proof (cases "n < 10")
    case True
    then show ?thesis by (subst ndigits.simps) simp
  next
    case False
    then have "n div 10 < 10 ^ ndigits (n div 10)" using "1.IH" by simp
    then have "n < 10 * 10 ^ ndigits (n div 10)" by simp
    then show ?thesis using False by (subst ndigits.simps) simp
  qed
qed

lemma dec_fix_zero: "dec_fix (Fin s 0 e) = Inr (Fin s 0 (min (max e Etiny) Emax))"
  by (simp add: dec_fix_def)

lemma dec_fix_small:
  assumes "0 < c" "c < 10 ^ prec" "Etiny \<le> e" "int (ndigits c) + e - int prec \<le> Etop"
  shows "dec_fix (Fin s c e) = Inr (Fin s c e)"
proof -
  have "ndigits c \<le> prec" using assms(2) by (intro ndigits_le) (simp_all add: prec_def)
  then have "\<not> e < max (int (ndigits c) + e - int prec) Etiny" using assms(3) by simp
  then show ?thesis using assms(1,4) by (simp add: dec_fix_def Let_def)
qed

section \<open>Facts about the arithmetic on finite operands\<close>

lemma dec_mul_Fin:
  "dec_mul (Fin sa ca ea) (Fin sb cb eb) = dec_fix (Fin (sa \<noteq> sb) (ca * cb) (ea + eb))"
  by (simp add: dec_mul_def check_nans_def)

lemma dec_truediv_zero_dividend:
  "0 < cb \<Longrightarrow> dec_truediv (Fin sa 0 ea) (Fin sb cb eb) = dec_fix (Fin (sa \<noteq> sb) 0 (ea - eb))"
  by (simp add: dec_truediv_def check_nans_def)

lemma dec_truediv_by_zero:
  "dec_truediv (Fin sa ca ea) (Fin sb 0 eb) =
     (if ca = 0 then Inl DivisionUndefined else Inl DivisionByZero)"
  by (simp add: dec_truediv_def check_nans_def)

lemma div_ideal_done: "div_ideal q e e = (q, e)"
  by (subst div_ideal.simps) simp

lemma div_ideal_pow: "div_ideal (q * 10 ^ k) (e - int k) e = (q, e)"
proof (induction k)
  case 0
  then show ?case by (simp add: div_ideal_done)
next
  case (Suc k)
  have "div_ideal (q * 10 ^ Suc k) (e - int (Suc k)) e =
        div_ideal (q * 10 ^ Suc k div 10) (e - int (Suc k) + 1) e"
    by (subst div_ideal.simps) simp
  also have "q * 10 ^ Suc k div 10 = q * 10 ^ k" by simp
  also have "e - int (Suc k) + 1 = e - int k" by simp
  finally show ?case using Suc.IH by simp
qed

lemma dec_truediv_exact:
  assumes "0 < cb" "0 < q" "ndigits (q * cb) \<le> ndigits cb + prec + 1"
  shows "dec_truediv (Fin sa (q * cb) ea) (Fin sb cb eb) = dec_fix (Fin (sa \<noteq> sb) q (ea - eb))"
proof -
  define k where "k = ndigits cb + prec + 1 - ndigits (q * cb)"
  have shift: "int (ndigits cb) - int (ndigits (q * cb)) + int prec + 1 = int k"
    using assms(3) by (simp add: k_def)
  have d: "q * cb * 10 ^ k div cb = q * 10 ^ k" using assms(1)
    by (simp add: mult.assoc mult.left_commute)
  have m: "q * cb * 10 ^ k mod cb = 0" by (simp add: mult.assoc)
  have e: "ea - eb - int k = (ea - eb) - int k" by simp
  show ?thesis using assms(1,2)
    by (simp add: dec_truediv_def check_nans_def shift Let_def d m e div_ideal_pow del: of_nat_add of_nat_mult)
qed

lemma dec_add_zero_zero:
  "dec_add (Fin sa 0 ea) (Fin sb 0 eb) = dec_fix (Fin (sa \<and> sb) 0 (min ea eb))"
  by (simp add: dec_add_def check_nans_def)

lemma dec_add_zero_right:
  "0 < ca \<Longrightarrow>
   dec_add (Fin sa ca ea) (Fin sb 0 eb) =
     dec_fix (Fin sa (ca * 10 ^ nat (ea - max (min ea eb) (ea - int prec - 1)))
                (max (min ea eb) (ea - int prec - 1)))"
  by (simp add: dec_add_def check_nans_def rescale_def Let_def)

lemma dec_pow_zero_exponent:
  "dec_pow pw (Fin s c e) (Fin so 0 eo) =
     (if c = 0 then Inl InvalidOperation else Inr (Fin False 1 0))"
  by (simp add: dec_pow_def check_nans_def is_zero_def)

lemma normalize_same_exp: "normalize (ca, e) (cb, e) = ((ca, e), (cb, e))"
proof -
  have "0 < ndigits cb" by (rule ndigits_pos)
  then have "\<not> int (ndigits cb) + e - 1 < e + min (- 1) (int (ndigits ca) - int prec - 2)"
    by simp
  then show ?thesis by (simp add: normalize_def Let_def)
qed

lemma dec_add_same_exp:
  assumes "0 < ca" "0 < cb"
  shows "dec_add (Fin sa ca e) (Fin sb cb e) =
     (if sa \<noteq> sb then
        (if ca = cb then dec_fix (Fin False 0 e)
         else if ca < cb then dec_fix (Fin sb (cb - ca) e)
         else dec_fix (Fin sa (ca - cb) e))
      else dec_fix (Fin sa (ca + cb) e))"
  using assms by (simp add: dec_add_def check_nans_def normalize_same_exp)

lemma dec_fix_plain:
  assumes "0 < c" "c < 10 ^ 50" "- 1000048 \<le> e" "e \<le> 999950"
  shows "dec_fix (Fin s c e) = Inr (Fin s c e)"
proof -
  have "ndigits c \<le> prec" using assms(2) by (intro ndigits_le) (simp_all add: prec_def)
  then have "int (ndigits c) + e - int prec \<le> Etop"
    using assms(4) by (simp add: Etop_def Emax_def prec_def)
  then show ?thesis
    using assms by (intro dec_fix_small) (simp_all add: prec_def Etiny_def Emin_def)
qed

lemma dec_fix_zero_plain:
  "- 1000048 \<le> e \<Longrightarrow> e \<le> 999999 \<Longrightarrow> dec_fix (Fin s 0 e) = Inr (Fin s 0 e)"
  by (simp add: dec_fix_zero Etiny_def Emin_def Emax_def prec_def)

section \<open>The encoder: \<open>_format_result\<close>\<close>

text \<open>
  Claim C1 (the encoding of a negative value is that of its magnitude) fails on the
  code. \<open>hex\<close> of a negative integer is \<open>-0x...\<close>, so the slice \<open>[2:]\<close> removes \<open>-0\<close> and
  leaves the letter \<open>x\<close> in front of the digits: \<open>_format_result(Decimal(-255))\<close> is \<open>0x\<close>,
  61 zeros and \<open>xff\<close>, while the magnitude 255 is encoded as \<open>0x\<close>, 62 zeros and \<open>ff\<close>.
  The result for \<open>-255\<close> is not a hexadecimal numeral at all.
\<close>

theorem format_result_negative_255:
  "impl_format_result (Fin True 255 0) =
     Inr ''0x0000000000000000000000000000000000000000000000000000000000000xff'' \<and>
   impl_format_result (Fin False 255 0) =
     Inr ''0x00000000000000000000000000000000000000000000000000000000000000ff''"
  by (simp add: fmt_defs hex_digits.simps)

text \<open>
  Claim C5 (66 characters, \<open>0x\<close> and 64 hexadecimal digits, for every value whose
  magnitude fits in 256 bits) fails on the code for negative values, by the same slice:
  \<open>-1\<close> gives 66 characters of which one is the letter \<open>x\<close>, and \<open>-16^63\<close>, whose
  magnitude has 64 hexadecimal digits, gives 67 characters.
\<close>

theorem format_result_negative_one:
  "impl_format_result (Fin True 1 0) =
     Inr ''0x00000000000000000000000000000000000000000000000000000000000000x1'' \<and>
   impl_format_result (Fin True (16 ^ 63) 0) =
     Inr ''0xx1000000000000000000000000000000000000000000000000000000000000000''"
  by (simp add: fmt_defs hex_digits.simps)

lemma hex_digits_length: "16 ^ k \<le> n \<Longrightarrow> k < length (hex_digits n)"
proof (induction k arbitrary: n)
  case 0
  then show ?case by (subst hex_digits.simps) simp
next
  case (Suc k)
  have "(16::nat) ^ 1 \<le> 16 ^ Suc k" by (rule power_increasing) simp_all
  then have "(16::nat) ^ 1 \<le> n" using Suc.prems by (rule order_trans)
  then have "16 \<le> n" by simp
  have "16 ^ k \<le> n div 16" using Suc.prems by (simp add: less_eq_div_iff_mult_less_eq mult.commute)
  then have "k < length (hex_digits (n div 16))" by (rule Suc.IH)
  then show ?case using \<open>16 \<le> n\<close> by (subst hex_digits.simps) simp
qed

lemma zfill_long: "width \<le> length s \<Longrightarrow> zfill width s = s"
  by (simp add: zfill_def)

text \<open>
  Claim C6: a value whose truncated integer \<open>n\<close> is at least \<open>2^256\<close> is encoded without an
  exception and without truncation: the result is \<open>hex(n)\<close> itself, that is \<open>0x\<close> followed
  by all the hexadecimal digits of \<open>n\<close>, with no padding, and there are more than 64 of
  them.
\<close>

theorem format_result_beyond_256_bits:
  assumes "dec_int v = Inr n" "2 ^ 256 \<le> n"
  shows "impl_format_result v = Inr (hex n) \<and> hex n = ''0x'' @ hex_digits (nat n) \<and>
         64 < length (hex_digits (nat n))"
proof -
  have "(16::nat) ^ 64 \<le> nat n" using assms(2) by (simp add: le_nat_iff)
  then have len: "64 < length (hex_digits (nat n))" by (rule hex_digits_length)
  have "(0::int) \<le> 2 ^ 256" by simp
  then have "0 \<le> n" using assms(2) by (rule order_trans)
  then have h: "hex n = ''0x'' @ hex_digits (nat n)" by (simp add: hex_def)
  then show ?thesis
    using assms(1) len by (simp add: impl_format_result_def and_then_def zfill_long)
qed

theorem format_result_beyond_256_bits_witness:
  "dec_int (Fin False (2 ^ 256) 0) = Inr (2 ^ 256) \<and> (2::int) ^ 256 \<le> 2 ^ 256 \<and>
   impl_format_result (Fin False (2 ^ 256) 0) = Inr (hex (2 ^ 256)) \<and>
   hex (2 ^ 256) = ''0x'' @ hex_digits (nat (2 ^ 256)) \<and>
   64 < length (hex_digits (nat (2 ^ 256)))"
proof -
  have d: "dec_int (Fin False (2 ^ 256) 0) = Inr (2 ^ 256)"
    by (simp add: dec_int_def trunc_def)
  show ?thesis
    using format_result_beyond_256_bits [OF d] d by simp
qed

section \<open>The share price with no supply\<close>

text \<open>
  Claim C10: when \<open>total_supply\<close> is the literal string \<open>0\<close>, \<open>calculate_share_price\<close>
  returns the encoding of \<open>10^18\<close> whatever the other three strings are; they are never
  parsed, so strings that are no decimal literals do not make the call fail.
\<close>

theorem share_price_zero_supply_never_parses:
  "calculate_share_price pw pool_size ''0'' rate_ppm time_seconds =
     Inr ''0x0000000000000000000000000000000000000000000000000de0b6b3a7640000'' \<and>
   calculate_share_price pw ''abc'' ''0'' ''xyz'' ''!'' =
     Inr ''0x0000000000000000000000000000000000000000000000000de0b6b3a7640000''"
  by (simp add: calculate_share_price_def Decimal_e18 format_e18 and_then_def)

section \<open>Concrete scenarios\<close>

lemma linear_1000:
  "impl_calculate_linear_yield (Fin False 1000 0) (Fin False 0 0) (Fin False 0 0) =
     Inr (Fin False 1000 0)"
  by (simp add: impl_calculate_linear_yield_def and_then_def Decimal_million Decimal_day
        dec_mul_Fin dec_fix_zero_plain dec_fix_plain dec_truediv_zero_dividend
        dec_add_zero_right prec_def)

lemma compound_rate0_time0:
  "impl_calculate_compound_yield pw (Fin False 1 0) (Fin False 0 0) (Fin False 0 0) =
     Inr (Fin False 1 0)"
  by (simp add: impl_calculate_compound_yield_def and_then_def Decimal_million Decimal_day
        Decimal_1 dec_mul_Fin dec_fix_zero_plain dec_fix_plain dec_truediv_zero_dividend
        dec_add_zero_right dec_pow_zero_exponent prec_def)

text \<open>
  Claim C9 gives the result of \<open>linear_yield("1000", "0", "0")\<close> as \<open>0x\<close> followed by 60
  zeros and \<open>3e8\<close>: 63 digits, 65 characters. The code pads to 64 digits, so the string
  of the claim is not what it returns.
\<close>

theorem linear_yield_1000_not_spec_string:
  "calculate_linear_yield ''1000'' ''0'' ''0'' \<noteq>
     Inr ''0x0000000000000000000000000000000000000000000000000000000000003e8''"
  by (simp add: calculate_linear_yield_def and_then_def Decimal_1000 Decimal_0 linear_1000
        format_1000)

text \<open>
  Claim C9, amended: \<open>calculate_linear_yield("1000", "0", "0")\<close> returns \<open>0x\<close> followed by
  61 zeros and \<open>3e8\<close>, the 64-digit encoding of 1000 (66 characters).
\<close>

theorem linear_yield_1000_value:
  "calculate_linear_yield ''1000'' ''0'' ''0'' =
     Inr ''0x00000000000000000000000000000000000000000000000000000000000003e8''"
  by (simp add: calculate_linear_yield_def and_then_def Decimal_1000 Decimal_0 linear_1000
        format_1000)

lemma Decimal_minus_million: "Decimal ''-1000000'' = Inr (Fin True 1000000 0)"
  by (simp add: parse_defs ndigits.simps)

lemma Decimal_minus_2million: "Decimal ''-2000000'' = Inr (Fin True 2000000 0)"
  by (simp add: parse_defs ndigits.simps)

lemma div_minus_million: "dec_truediv (Fin True 1000000 0) (Fin False 1000000 0) = Inr (Fin True 1 0)"
  using dec_truediv_exact [of 1000000 1 True 0 False 0]
  by (simp add: ndigits.simps prec_def dec_fix_plain del: One_nat_def)

lemma div_minus_2million: "dec_truediv (Fin True 2000000 0) (Fin False 1000000 0) = Inr (Fin True 2 0)"
  using dec_truediv_exact [of 1000000 2 True 0 False 0]
  by (simp add: ndigits.simps prec_def dec_fix_plain)

lemma div_zero_day: "dec_truediv (Fin False 0 0) (Fin False 86400 0) = Inr (Fin False 0 0)"
  by (simp add: dec_truediv_zero_dividend dec_fix_zero_plain)

lemma one_minus_one: "dec_add (Fin False 1 0) (Fin True 1 0) = Inr (Fin False 0 0)"
  using dec_add_same_exp [of 1 1 False 0 True]
  by (simp add: dec_fix_zero_plain del: One_nat_def)

lemma one_minus_two: "dec_add (Fin False 1 0) (Fin True 2 0) = Inr (Fin True 1 0)"
  using dec_add_same_exp [of 1 2 False 0 True]
  by (simp add: dec_fix_plain del: One_nat_def)

lemma compound_zero_base:
  "impl_calculate_compound_yield pw (Fin False 1000 0) (Fin True 1000000 0) (Fin False 0 0) =
     Inl InvalidOperation"
  by (simp add: impl_calculate_compound_yield_def and_then_def Decimal_million Decimal_day
        Decimal_1 div_minus_million div_zero_day one_minus_one dec_pow_zero_exponent
        del: One_nat_def)

lemma compound_minus_one_base:
  "impl_calculate_compound_yield pw (Fin False 1000 0) (Fin True 2000000 0) (Fin False 0 0) =
     Inr (Fin False 1000 0)"
  by (simp add: impl_calculate_compound_yield_def and_then_def Decimal_million Decimal_day
        Decimal_1 div_minus_2million div_zero_day one_minus_two dec_pow_zero_exponent
        dec_mul_Fin dec_fix_plain del: One_nat_def)

section \<open>The share price with a supply that parses to zero\<close>

lemma truediv_zero_never_formats:
  "isl (and_then (dec_truediv x (Fin s 0 e)) impl_format_result)"
proof (cases x)
  case (Fin sa ca ea)
  then show ?thesis by (simp add: dec_truediv_by_zero and_then_def)
next
  case (Inf sa)
  then show ?thesis
    by (simp add: dec_truediv_def check_nans_def and_then_def impl_format_result_def dec_int_def)
next
  case (NaN sg)
  then show ?thesis
    by (cases sg)
      (simp_all add: dec_truediv_def check_nans_def and_then_def impl_format_result_def
         dec_int_def)
qed

lemma share_price_zero_divisor:
  "isl (and_then (impl_calculate_share_price pw pool (Fin s 0 e) rate time) impl_format_result)"
proof (cases "impl_calculate_compound_yield pw pool rate time")
  case (Inl err)
  then show ?thesis by (simp add: impl_calculate_share_price_def and_then_def)
next
  case ta: (Inr total_assets)
  show ?thesis
  proof (cases "dec_mul total_assets (Fin False 1000000000000000000 0)")
    case (Inl err)
    then show ?thesis
      using ta by (simp add: impl_calculate_share_price_def and_then_def Decimal_e18)
  next
    case (Inr scaled)
    then show ?thesis
      using ta truediv_zero_never_formats [of scaled s e]
      by (simp add: impl_calculate_share_price_def and_then_def Decimal_e18)
  qed
qed

lemma compound_zero_pool:
  "impl_calculate_compound_yield pw (Fin False 0 0) (Fin False 0 0) (Fin False 0 0) =
     Inr (Fin False 0 0)"
  by (simp add: impl_calculate_compound_yield_def and_then_def Decimal_million Decimal_day
        Decimal_1 dec_truediv_zero_dividend dec_fix_plain dec_mul_Fin dec_fix_zero_plain
        dec_add_zero_right dec_pow_zero_exponent prec_def)

lemma zero_by_zero:
  "dec_truediv (Fin False 0 0) (Fin False 0 (- 1)) = Inl DivisionUndefined"
  by (simp add: dec_truediv_def check_nans_def)

text \<open>
  Claim C2 says that every \<open>total_supply\<close> whose parsed value is zero (for example \<open>0.0\<close> or
  \<open>00\<close>) gives the encoding of \<open>10^18\<close>. The guard of the code compares the string with
  \<open>"0"\<close>: the strings \<open>0.0\<close> and \<open>00\<close> parse to zero, pass the guard, and the division by
  the parsed supply raises: \<open>DivisionByZero\<close> for a pool of \<open>1\<close>, \<open>DivisionUndefined\<close> (the
  Python class \<open>InvalidOperation\<close>) for a pool of \<open>0\<close>.
\<close>

theorem share_price_zero_valued_supply_fails:
  "\<forall>pw. calculate_share_price pw ''1'' ''0.0'' ''0'' ''0'' = Inl DivisionByZero \<and>
     calculate_share_price pw ''1'' ''00'' ''0'' ''0'' = Inl DivisionByZero \<and>
     calculate_share_price pw ''0'' ''0.0'' ''0'' ''0'' = Inl DivisionUndefined \<and>
     Decimal ''0.0'' = Inr (Fin False 0 (- 1)) \<and> Decimal ''00'' = Inr (Fin False 0 0)"
  by (simp add: calculate_share_price_def impl_calculate_share_price_def and_then_def
        Decimal_1 Decimal_0 Decimal_0_0 Decimal_00 Decimal_e18 compound_rate0_time0
        compound_zero_pool zero_by_zero
        dec_mul_Fin dec_fix_plain dec_fix_zero_plain dec_truediv_by_zero del: One_nat_def)

text \<open>
  Claim C2, amended: for every \<open>pool_size\<close>, \<open>rate_ppm\<close> and \<open>time_seconds\<close>,
  \<open>calculate_share_price\<close> returns the encoding of \<open>10^18\<close>, the string \<open>0x\<close> followed by
  \<open>0000000000000000000000000000000000000000000000000de0b6b3a7640000\<close>, when
  \<open>total_supply\<close> is the literal string \<open>0\<close>; for any other string whose parsed value is a
  zero the call returns nothing and raises an exception (\<open>isl\<close>), whatever the other
  arguments are and whatever the library's power gives.
\<close>

theorem share_price_literal_zero_only:
  "calculate_share_price pw pool_size ''0'' rate_ppm time_seconds =
     Inr ''0x0000000000000000000000000000000000000000000000000de0b6b3a7640000'' \<and>
   (total_supply \<noteq> ''0'' \<and> Decimal total_supply = Inr (Fin s 0 e) \<longrightarrow>
      isl (calculate_share_price pw pool_size total_supply rate_ppm time_seconds))"
proof (intro conjI impI)
  show "calculate_share_price pw pool_size ''0'' rate_ppm time_seconds =
     Inr ''0x0000000000000000000000000000000000000000000000000de0b6b3a7640000''"
    by (simp add: calculate_share_price_def Decimal_e18 format_e18 and_then_def)
next
  assume a: "total_supply \<noteq> ''0'' \<and> Decimal total_supply = Inr (Fin s 0 e)"
  have "isl (and_then (Decimal pool_size) (\<lambda>p. and_then (Inr (Fin s 0 e)) (\<lambda>ts.
          and_then (Decimal rate_ppm) (\<lambda>r. and_then (Decimal time_seconds) (\<lambda>t.
          and_then (impl_calculate_share_price pw p ts r t) impl_format_result)))))"
    using share_price_zero_divisor [of pw _ s e]
    by (cases "Decimal pool_size"; cases "Decimal rate_ppm"; cases "Decimal time_seconds")
       (simp_all add: and_then_def)
  then show "isl (calculate_share_price pw pool_size total_supply rate_ppm time_seconds)"
    using a by (simp add: calculate_share_price_def)
qed

theorem share_price_literal_zero_only_witness:
  "\<forall>pw. calculate_share_price pw ''1'' ''0'' ''0'' ''0'' =
       Inr ''0x0000000000000000000000000000000000000000000000000de0b6b3a7640000'' \<and>
     ''0.0'' \<noteq> ''0'' \<and> Decimal ''0.0'' = Inr (Fin False 0 (- 1)) \<and>
     isl (calculate_share_price pw ''1'' ''0.0'' ''0'' ''0'')"
proof (intro allI)
  fix pw
  show "calculate_share_price pw ''1'' ''0'' ''0'' ''0'' =
       Inr ''0x0000000000000000000000000000000000000000000000000de0b6b3a7640000'' \<and>
     ''0.0'' \<noteq> ''0'' \<and> Decimal ''0.0'' = Inr (Fin False 0 (- 1)) \<and>
     isl (calculate_share_price pw ''1'' ''0.0'' ''0'' ''0'')"
    using share_price_literal_zero_only [of pw "''1''" "''0''" "''0''" "''0.0''" False "- 1"]
    by (simp add: Decimal_0_0)
qed

section \<open>Compound yield with a negative base\<close>

lemma div_ideal_odd: "q mod 10 \<noteq> 0 \<Longrightarrow> div_ideal q x ideal = (q, x)"
  by (subst div_ideal.simps) simp

lemma div_ideal_strip:
  "q mod 10 \<noteq> 0 \<Longrightarrow> x \<le> ideal \<Longrightarrow> div_ideal (q * 10 ^ k) (x - int k) ideal = (q, x)"
proof (induction k)
  case 0
  then show ?case by (simp add: div_ideal_odd)
next
  case (Suc k)
  have "div_ideal (q * 10 ^ Suc k) (x - int (Suc k)) ideal =
        div_ideal (q * 10 ^ Suc k div 10) (x - int (Suc k) + 1) ideal"
    using Suc.prems(2) by (subst div_ideal.simps) simp
  also have "q * 10 ^ Suc k div 10 = q * 10 ^ k" by simp
  also have "x - int (Suc k) + 1 = x - int k" by simp
  finally show ?case using Suc by simp
qed

lemma dec_truediv_terminating:
  assumes "0 < cb" "0 < ca" "ndigits ca \<le> ndigits cb + prec + 1"
    and "ca * 10 ^ (ndigits cb + prec + 1 - ndigits ca) = q * 10 ^ m * cb"
    and "q mod 10 \<noteq> 0" "m \<le> ndigits cb + prec + 1 - ndigits ca"
  shows "dec_truediv (Fin sa ca ea) (Fin sb cb eb) =
           dec_fix (Fin (sa \<noteq> sb) q (ea - eb - int (ndigits cb + prec + 1 - ndigits ca) + int m))"
proof -
  define k where "k = ndigits cb + prec + 1 - ndigits ca"
  have shift: "int (ndigits cb) - int (ndigits ca) + int prec + 1 = int k"
    using assms(3) by (simp add: k_def)
  have d: "ca * 10 ^ k div cb = q * 10 ^ m" using assms(1,4) by (simp add: k_def)
  have r: "ca * 10 ^ k mod cb = 0" using assms(4) by (simp add: k_def)
  have "div_ideal (q * 10 ^ m) ((ea - eb - int k + int m) - int m) (ea - eb) =
          (q, ea - eb - int k + int m)"
    using assms(5,6) by (intro div_ideal_strip) (simp_all add: k_def)
  then have s: "div_ideal (q * 10 ^ m) (ea - eb - int k) (ea - eb) = (q, ea - eb - int k + int m)"
    by simp
  have "dec_truediv (Fin sa ca ea) (Fin sb cb eb) =
          dec_fix (Fin (sa \<noteq> sb) q (ea - eb - int k + int m))"
    using assms(1,2)
    by (simp add: dec_truediv_def check_nans_def shift Let_def d r s
          del: of_nat_add of_nat_mult)
  then show ?thesis by (simp only: k_def)
qed

lemma is_zero_isinteger: "is_zero d \<Longrightarrow> isinteger d"
  by (cases d) (simp_all add: is_zero_def isinteger_def)

lemma dec_pow_negative_noninteger:
  assumes "dec_sign b" "\<not> is_zero b" "\<not> isinteger td" "td \<noteq> NaN True" "td \<noteq> NaN False"
  shows "dec_pow pw b td = Inl InvalidOperation"
proof -
  have "\<not> is_zero td" using assms(3) is_zero_isinteger by blast
  then show ?thesis
    using assms
    by (cases b; cases td) (simp_all add: dec_pow_def check_nans_def is_zero_def dec_sign_def)
qed

lemma Decimal_minus_Infinity: "Decimal ''-Infinity'' = Inr (Inf True)"
  by (simp add: parse_defs char_of_def bit_0)

lemma div_minus_Infinity: "dec_truediv (Inf True) (Fin False 1000000 0) = Inr (Inf True)"
  by (simp add: dec_truediv_def check_nans_def)

lemma one_minus_Infinity: "dec_add (Fin False 1 0) (Inf True) = Inr (Inf True)"
  by (simp add: dec_add_def check_nans_def)

lemma Decimal_43200: "Decimal ''43200'' = Inr (Fin False 43200 0)"
  by (simp add: parse_defs ndigits.simps)

lemma half_day: "dec_truediv (Fin False 43200 0) (Fin False 86400 0) = Inr (Fin False 5 (- 1))"
  using dec_truediv_terminating [of 86400 43200 5 50 False 0 False 0]
  by (simp add: ndigits.simps prec_def dec_fix_plain)

text \<open>
  Claim C8 says that the compound yield fails for every principal and every
  \<open>time_seconds\<close> once \<open>1 + daily_rate\<close> is negative. With \<open>rate_ppm = -2000000\<close> the base
  is \<open>-1\<close>, and for \<open>time_seconds = 0\<close> the exponent is the integer \<open>0\<close>: the power is \<open>1\<close>
  and the call returns the encoding of the principal \<open>1000\<close>.
\<close>

theorem compound_yield_rate_minus_200_percent_succeeds:
  "\<forall>pw. calculate_compound_yield pw ''1000'' ''-2000000'' ''0'' =
     Inr ''0x00000000000000000000000000000000000000000000000000000000000003e8''"
  by (simp add: calculate_compound_yield_def and_then_def Decimal_1000 Decimal_0
        Decimal_minus_2million compound_minus_one_base format_1000)

text \<open>
  Claim C8, amended: for every principal, \<open>rate_ppm\<close> and \<open>time_seconds\<close> that parse,
  when the daily rate \<open>rate_ppm / 1000000\<close>, the base \<open>1 + daily_rate\<close> and
  \<open>time_days = time_seconds / 86400\<close> are computed without an exception, the base is
  negative (its sign is set and it is not a zero: a negative number or \<open>-Infinity\<close>) and
  \<open>time_days\<close> is not an integer (a finite value with a fractional part, or an infinity),
  \<open>calculate_compound_yield\<close> raises \<open>InvalidOperation\<close>.
\<close>

theorem compound_yield_negative_base_fractional_days:
  assumes "Decimal principal' = Inr P" "Decimal rate_ppm = Inr R" "Decimal time_seconds = Inr T"
    and "dec_truediv R (Fin False 1000000 0) = Inr daily_rate"
    and "dec_truediv T (Fin False 86400 0) = Inr time_days"
    and "dec_add (Fin False 1 0) daily_rate = Inr base" "dec_sign base" "\<not> is_zero base"
    and "\<not> isinteger time_days" "time_days \<noteq> NaN True" "time_days \<noteq> NaN False"
  shows "calculate_compound_yield pw principal' rate_ppm time_seconds = Inl InvalidOperation"
  using assms
  by (simp add: calculate_compound_yield_def impl_calculate_compound_yield_def and_then_def
        Decimal_million Decimal_day Decimal_1 dec_pow_negative_noninteger del: One_nat_def)

theorem compound_yield_negative_base_fractional_days_witness:
  "\<forall>pw. Decimal ''1000'' = Inr (Fin False 1000 0) \<and>
     Decimal ''-2000000'' = Inr (Fin True 2000000 0) \<and>
     Decimal ''43200'' = Inr (Fin False 43200 0) \<and>
     dec_truediv (Fin True 2000000 0) (Fin False 1000000 0) = Inr (Fin True 2 0) \<and>
     dec_truediv (Fin False 43200 0) (Fin False 86400 0) = Inr (Fin False 5 (- 1)) \<and>
     dec_add (Fin False 1 0) (Fin True 2 0) = Inr (Fin True 1 0) \<and>
     dec_sign (Fin True 1 0) \<and> \<not> is_zero (Fin True 1 0) \<and>
     \<not> isinteger (Fin False 5 (- 1)) \<and>
     calculate_compound_yield pw ''1000'' ''-2000000'' ''43200'' = Inl InvalidOperation \<and>
     Decimal ''-Infinity'' = Inr (Inf True) \<and>
     dec_truediv (Inf True) (Fin False 1000000 0) = Inr (Inf True) \<and>
     dec_add (Fin False 1 0) (Inf True) = Inr (Inf True) \<and>
     dec_sign (Inf True) \<and> \<not> is_zero (Inf True) \<and>
     calculate_compound_yield pw ''1000'' ''-Infinity'' ''43200'' = Inl InvalidOperation"
proof (intro allI)
  fix pw
  have s1: "dec_sign (Fin True 1 0)" "\<not> is_zero (Fin True 1 0)"
    and s2: "dec_sign (Inf True)" "\<not> is_zero (Inf True)"
    and ni: "\<not> isinteger (Fin False 5 (- 1))"
    by (simp_all add: dec_sign_def is_zero_def isinteger_def)
  have n: "Fin False 5 (- 1) \<noteq> NaN True" "Fin False 5 (- 1) \<noteq> NaN False" by simp_all
  note a = compound_yield_negative_base_fractional_days
    [where pw = pw, OF Decimal_1000 Decimal_minus_2million Decimal_43200 div_minus_2million
        half_day one_minus_two s1 ni n]
  note b = compound_yield_negative_base_fractional_days
    [where pw = pw, OF Decimal_1000 Decimal_minus_Infinity Decimal_43200 div_minus_Infinity
        half_day one_minus_Infinity s2 ni n]
  show "Decimal ''1000'' = Inr (Fin False 1000 0) \<and>
     Decimal ''-2000000'' = Inr (Fin True 2000000 0) \<and>
     Decimal ''43200'' = Inr (Fin False 43200 0) \<and>
     dec_truediv (Fin True 2000000 0) (Fin False 1000000 0) = Inr (Fin True 2 0) \<and>
     dec_truediv (Fin False 43200 0) (Fin False 86400 0) = Inr (Fin False 5 (- 1)) \<and>
     dec_add (Fin False 1 0) (Fin True 2 0) = Inr (Fin True 1 0) \<and>
     dec_sign (Fin True 1 0) \<and> \<not> is_zero (Fin True 1 0) \<and>
     \<not> isinteger (Fin False 5 (- 1)) \<and>
     calculate_compound_yield pw ''1000'' ''-2000000'' ''43200'' = Inl InvalidOperation \<and>
     Decimal ''-Infinity'' = Inr (Inf True) \<and>
     dec_truediv (Inf True) (Fin False 1000000 0) = Inr (Inf True) \<and>
     dec_add (Fin False 1 0) (Inf True) = Inr (Inf True) \<and>
     dec_sign (Inf True) \<and> \<not> is_zero (Inf True) \<and>
     calculate_compound_yield pw ''1000'' ''-Infinity'' ''43200'' = Inl InvalidOperation"
    using a b s1 s2 ni
    by (simp add: Decimal_1000 Decimal_minus_2million Decimal_43200 div_minus_2million half_day
        one_minus_two Decimal_minus_Infinity div_minus_Infinity one_minus_Infinity
        del: One_nat_def)
qed

section \<open>Compound yield over no time\<close>

text \<open>
  With \<open>time_seconds = 0\<close> the exponent is zero and the power is one, unless the base is
  zero: \<open>0 ** 0\<close> is refused by the library. The product \<open>principal * 1\<close> is rounded to
  the 50 digits of the context, so a principal of more than 50 digits can come back
  rounded.
\<close>

lemma ndigits_unique:
  assumes "0 < m" "10 ^ (m - 1) \<le> n" "n < 10 ^ m"
  shows "ndigits n = m"
proof -
  have le: "ndigits n \<le> m" using assms(3,1) by (rule ndigits_le)
  have "\<not> ndigits n < m"
  proof
    assume "ndigits n < m"
    then have "ndigits n \<le> m - 1" by simp
    then have "(10::nat) ^ ndigits n \<le> 10 ^ (m - 1)" by (intro power_increasing) simp_all
    then have "10 ^ ndigits n \<le> n" using assms(2) by (rule order_trans)
    then show False using ndigits_upper [of n] by simp
  qed
  then show ?thesis using le by simp
qed

lemma ndigits_51: "ndigits 100000000000000000000000000000000000000000000000001 = 51"
  by (rule ndigits_unique) simp_all

lemma fix_51_digits:
  "dec_fix (Fin False 100000000000000000000000000000000000000000000000001 0) =
     Inr (Fin False 10000000000000000000000000000000000000000000000000 1)"
  by (simp add: dec_fix_def fix_round_def round_half_even_def Let_def ndigits_51 prec_def
        Etop_def Emax_def Etiny_def Emin_def)

lemma Decimal_51_digits:
  "Decimal ''100000000000000000000000000000000000000000000000001'' =
     Inr (Fin False 100000000000000000000000000000000000000000000000001 0)"
  by (simp add: parse_defs ndigits_51)

lemma format_10_50:
  "impl_format_result (Fin False 10000000000000000000000000000000000000000000000000 1) =
     Inr ''0x0000000000000000000000446c3b15f9926687d2c40534fdb564000000000000''"
  by (simp add: fmt_defs hex_digits.simps)

lemma format_51_digits:
  "impl_format_result (Fin False 100000000000000000000000000000000000000000000000001 0) =
     Inr ''0x0000000000000000000000446c3b15f9926687d2c40534fdb564000000000001''"
  by (simp add: fmt_defs hex_digits.simps)

lemma compound_51_digits:
  "impl_calculate_compound_yield pw
      (Fin False 100000000000000000000000000000000000000000000000001 0)
      (Fin False 0 0) (Fin False 0 0) =
     Inr (Fin False 10000000000000000000000000000000000000000000000000 1)"
  by (simp add: impl_calculate_compound_yield_def and_then_def Decimal_million Decimal_day
        Decimal_1 dec_mul_Fin dec_fix_zero_plain dec_fix_plain dec_truediv_zero_dividend
        dec_add_zero_right dec_pow_zero_exponent prec_def fix_51_digits)

lemma dec_pow_zero_exponent_any:
  "\<not> is_zero b \<Longrightarrow> b \<noteq> NaN True \<Longrightarrow> b \<noteq> NaN False \<Longrightarrow>
     dec_pow pw b (Fin so 0 eo) = Inr (Fin False 1 0)"
  by (simp add: dec_pow_def check_nans_def is_zero_def)

lemma dec_mul_one:
  assumes "c < 10 ^ 50" "- 1000048 \<le> e" "e \<le> 999950"
  shows "dec_mul (Fin s c e) (Fin False 1 0) = Inr (Fin s c e)"
proof (cases "c = 0")
  case True
  then show ?thesis using assms by (simp add: dec_mul_Fin dec_fix_zero_plain)
next
  case False
  then show ?thesis using assms by (simp add: dec_mul_Fin dec_fix_plain)
qed

text \<open>
  Claim C3 says that \<open>calculate_compound_yield(p, r, "0")\<close> returns the encoding of \<open>p\<close>
  truncated for every valid \<open>p\<close> and \<open>r\<close>, the rate \<open>-1000000\<close> included. For that rate the
  base is \<open>0\<close>, and \<open>0 ** 0\<close> raises \<open>InvalidOperation\<close>. For a principal of 51 digits,
  \<open>10^50 + 1\<close>, the call returns the encoding of \<open>10^50\<close>, which is not the encoding of the
  principal.
\<close>

theorem compound_yield_zero_time_zero_base_fails:
  "\<forall>pw. calculate_compound_yield pw ''1000'' ''-1000000'' ''0'' = Inl InvalidOperation \<and>
     calculate_compound_yield pw ''100000000000000000000000000000000000000000000000001'' ''0'' ''0'' =
       Inr ''0x0000000000000000000000446c3b15f9926687d2c40534fdb564000000000000'' \<and>
     Decimal ''100000000000000000000000000000000000000000000000001'' = Inr (Fin False 100000000000000000000000000000000000000000000000001 0) \<and>
     impl_format_result (Fin False 100000000000000000000000000000000000000000000000001 0) =
       Inr ''0x0000000000000000000000446c3b15f9926687d2c40534fdb564000000000001''"
  by (simp add: calculate_compound_yield_def and_then_def Decimal_1000 Decimal_0
        Decimal_minus_million compound_zero_base Decimal_51_digits compound_51_digits
        format_10_50 format_51_digits)

text \<open>
  Claim C3, amended: for a principal that parses to a finite number \<open>cp * 10^ep\<close> of at
  most 50 digits (\<open>cp < 10^50\<close>, with \<open>-1000048 \<le> ep \<le> 999950\<close>) and a rate that parses,
  when the daily rate \<open>rate_ppm / 1000000\<close> and the base \<open>1 + daily_rate\<close> are computed
  without an exception and the base is neither a zero nor a NaN,
  \<open>calculate_compound_yield(p, r, "0")\<close> returns the encoding of the principal truncated
  towards zero: \<open>0x\<close> followed by \<open>hex(int(p))[2:].zfill(64)\<close>.
\<close>

theorem compound_yield_zero_time:
  assumes "Decimal principal' = Inr (Fin sp cp ep)" "cp < 10 ^ 50" "- 1000048 \<le> ep" "ep \<le> 999950"
    and "Decimal rate_ppm = Inr R"
    and "dec_truediv R (Fin False 1000000 0) = Inr daily_rate"
    and "dec_add (Fin False 1 0) daily_rate = Inr base"
    and "\<not> is_zero base" "base \<noteq> NaN True" "base \<noteq> NaN False"
  shows "calculate_compound_yield pw principal' rate_ppm ''0'' =
           Inr (''0x'' @ zfill 64 (drop 2 (hex (trunc sp cp ep))))"
  using assms
  by (simp add: calculate_compound_yield_def impl_calculate_compound_yield_def and_then_def
        Decimal_million Decimal_day Decimal_1 Decimal_0 div_zero_day dec_pow_zero_exponent_any
        dec_mul_one impl_format_result_def dec_int_def del: One_nat_def)

theorem compound_yield_zero_time_witness:
  "\<forall>pw. Decimal ''1000'' = Inr (Fin False 1000 0) \<and> (1000::nat) < 10 ^ 50 \<and>
     Decimal ''-2000000'' = Inr (Fin True 2000000 0) \<and>
     dec_truediv (Fin True 2000000 0) (Fin False 1000000 0) = Inr (Fin True 2 0) \<and>
     dec_add (Fin False 1 0) (Fin True 2 0) = Inr (Fin True 1 0) \<and>
     \<not> is_zero (Fin True 1 0) \<and>
     calculate_compound_yield pw ''1000'' ''-2000000'' ''0'' =
       Inr (''0x'' @ zfill 64 (drop 2 (hex (trunc False 1000 0))))"
proof (intro allI)
  fix pw
  have z: "\<not> is_zero (Fin True 1 0)" by (simp add: is_zero_def)
  have n: "Fin True 1 0 \<noteq> NaN True" "Fin True 1 0 \<noteq> NaN False" by simp_all
  have b: "(1000::nat) < 10 ^ 50" "- 1000048 \<le> (0::int)" "(0::int) \<le> 999950" by simp_all
  note a = compound_yield_zero_time
    [where pw = pw, OF Decimal_1000 b Decimal_minus_2million div_minus_2million one_minus_two z n]
  show "Decimal ''1000'' = Inr (Fin False 1000 0) \<and> (1000::nat) < 10 ^ 50 \<and>
     Decimal ''-2000000'' = Inr (Fin True 2000000 0) \<and>
     dec_truediv (Fin True 2000000 0) (Fin False 1000000 0) = Inr (Fin True 2 0) \<and>
     dec_add (Fin False 1 0) (Fin True 2 0) = Inr (Fin True 1 0) \<and>
     \<not> is_zero (Fin True 1 0) \<and>
     calculate_compound_yield pw ''1000'' ''-2000000'' ''0'' =
       Inr (''0x'' @ zfill 64 (drop 2 (hex (trunc False 1000 0))))"
    using a z
    by (simp add: Decimal_1000 Decimal_minus_2million div_minus_2million one_minus_two
        del: One_nat_def)
qed

section \<open>A zero rate\<close>

text \<open>
  With \<open>rate_ppm = 0\<close> the linear yield adds a zero to the principal and the compound
  yield multiplies it by a power of one. Both operations may pad the coefficient with
  zeros, which the rounding to 50 digits removes again; the value is kept as long as the
  principal itself has at most 50 digits.
\<close>

lemma ndigits_mult_pow: "0 < c \<Longrightarrow> ndigits (c * 10 ^ k) = ndigits c + k"
proof (rule ndigits_unique)
  assume c: "0 < c"
  show "0 < ndigits c + k" using ndigits_pos [of c] by simp
  have "10 ^ (ndigits c - 1) * 10 ^ k \<le> c * 10 ^ k"
    using ndigits_lower [OF c] by (rule mult_le_mono1)
  moreover have "ndigits c + k - 1 = (ndigits c - 1) + k" using ndigits_pos [of c] by simp
  ultimately show "10 ^ (ndigits c + k - 1) \<le> c * 10 ^ k" by (simp add: power_add)
  have "c * 10 ^ k < 10 ^ ndigits c * 10 ^ k"
    using ndigits_upper [of c] by (intro mult_strict_right_mono) simp_all
  then show "c * 10 ^ k < 10 ^ (ndigits c + k)" by (simp add: power_add)
qed

lemma trunc_padded: "trunc s (c * 10 ^ j) (e - int j) = trunc s c e"
proof -
  consider (a) "0 \<le> e - int j" | (b) "e - int j < 0" "0 \<le> e" | (c) "e < 0" by linarith
  then show ?thesis
  proof cases
    case a
    then have "nat e = j + nat (e - int j)" by simp
    then have "(10::int) ^ nat e = 10 ^ j * 10 ^ nat (e - int j)" by (simp add: power_add)
    then show ?thesis using a by (simp add: trunc_def)
  next
    case b
    then have "j = nat e + nat (int j - e)" by simp
    then have "(10::nat) ^ j = 10 ^ nat e * 10 ^ nat (int j - e)" by (metis power_add)
    then have "c * 10 ^ j div 10 ^ nat (int j - e) = c * 10 ^ nat e"
      by (simp add: mult.assoc [symmetric])
    then show ?thesis using b by (simp add: trunc_def)
  next
    case c
    then have "nat (int j - e) = j + nat (- e)" by simp
    then have "(10::nat) ^ nat (int j - e) = 10 ^ j * 10 ^ nat (- e)" by (simp add: power_add)
    then have "c * 10 ^ j div 10 ^ nat (int j - e) = c div 10 ^ nat (- e)"
      by (simp add: mult.commute [of c])
    then show ?thesis using c by (simp add: trunc_def)
  qed
qed

lemma fix_padded:
  assumes "0 < c" "c < 10 ^ 50" "k \<le> 51" "- 999997 \<le> e" "e \<le> 999950"
  shows "\<exists>j. dec_fix (Fin s (c * 10 ^ k) (e - int k)) = Inr (Fin s (c * 10 ^ j) (e - int j))"
proof -
  define n where "n = ndigits c"
  have n: "0 < n" "n \<le> 50"
    using ndigits_pos [of c] ndigits_le [OF assms(2)] by (simp_all add: n_def)
  have nd: "ndigits (c * 10 ^ k) = n + k" using assms(1) by (simp add: ndigits_mult_pow n_def)
  have pos: "c * 10 ^ k \<noteq> 0" using assms(1) by simp
  have em: "int (n + k) + (e - int k) - 50 = int n + e - 50" by simp
  show ?thesis
  proof (cases "n + k \<le> 50")
    case True
    have "dec_fix (Fin s (c * 10 ^ k) (e - int k)) = Inr (Fin s (c * 10 ^ k) (e - int k))"
      using pos True n assms(3,4,5)
      by (simp add: dec_fix_def Let_def nd prec_def Etop_def Emax_def Etiny_def Emin_def
            del: of_nat_add)
    then show ?thesis by blast
  next
    case False
    define d where "d = n + k - 50"
    have d: "0 < d" "d \<le> k" using False n by (simp_all add: d_def)
    have split: "c * 10 ^ k = c * 10 ^ (k - d) * 10 ^ d"
      using d(2) by (simp add: mult.assoc power_add [symmetric])
    have rest: "c * 10 ^ k mod 10 ^ d = 0" by (subst split) simp
    have quot: "c * 10 ^ k div 10 ^ d = c * 10 ^ (k - d)" by (subst split) simp
    have half: "(5::nat) * 10 ^ (d - 1) \<noteq> 0" by simp
    have rhe: "round_half_even (c * 10 ^ k) 50 = 0"
      using rest half by (simp add: round_half_even_def Let_def nd d_def [symmetric])
    have dg: "int (n + k) + (50 - int n - int k) = 50" by simp
    have fr: "fix_round s (c * 10 ^ k) (e - int k) (int n + e - 50) =
                Inr (Fin s (c * 10 ^ (k - d)) (int n + e - 50))"
      using n assms(5)
      by (simp add: fix_round_def Let_def nd dg rhe quot d_def [symmetric] prec_def Etop_def
            Emax_def del: of_nat_add)
    have ex: "int n + e - 50 = e - int (k - d)" using d n False by (simp add: d_def)
    have "dec_fix (Fin s (c * 10 ^ k) (e - int k)) =
            fix_round s (c * 10 ^ k) (e - int k) (int n + e - 50)"
      using pos False n assms(3,4,5)
      by (simp add: dec_fix_def Let_def nd em prec_def Etop_def Emax_def Etiny_def Emin_def
            max_def del: of_nat_add)
    then show ?thesis using fr ex by auto
  qed
qed

lemma trunc_zero: "trunc s 0 e = 0"
  by (simp add: trunc_def)

lemma dec_fix_zero_ex: "\<exists>e'. dec_fix (Fin s 0 e) = Inr (Fin s 0 e')"
  by (simp add: dec_fix_zero)

lemma mul_padded:
  assumes "c < 10 ^ 50" "k \<le> 51" "- 999997 \<le> e" "e \<le> 999950"
  shows "\<exists>c' e'. dec_fix (Fin s (c * 10 ^ k) (e - int k)) = Inr (Fin s c' e') \<and>
           trunc s c' e' = trunc s c e"
proof (cases "c = 0")
  case True
  then show ?thesis using dec_fix_zero_ex [of s "e - int k"] by (auto simp add: trunc_zero)
next
  case False
  then obtain j where "dec_fix (Fin s (c * 10 ^ k) (e - int k)) = Inr (Fin s (c * 10 ^ j) (e - int j))"
    using fix_padded [of c k e s] assms by auto
  then show ?thesis using trunc_padded [of s c j e] by blast
qed

lemma linear_zero_rate:
  assumes "cp < 10 ^ 50" "- 999997 \<le> ep" "ep \<le> 999950"
  shows "\<exists>c' e'. impl_calculate_linear_yield (Fin False cp ep) (Fin False 0 0) (Fin st ct et) =
           Inr (Fin False c' e') \<and> trunc False c' e' = trunc False cp ep"
proof -
  have pr: "dec_mul (Fin False cp ep) (Fin False 0 0) = Inr (Fin False 0 ep)"
    using assms by (simp add: dec_mul_Fin dec_fix_zero_plain)
  obtain x where prt: "dec_mul (Fin False 0 ep) (Fin st ct et) = Inr (Fin st 0 x)"
    using dec_fix_zero_ex [of st "ep + et"] by (auto simp add: dec_mul_Fin)
  have dv: "dec_mul (Fin False 1000000 0) (Fin False 86400 0) = Inr (Fin False 86400000000 0)"
    by (simp add: dec_mul_Fin dec_fix_plain)
  obtain y where yl: "dec_truediv (Fin st 0 x) (Fin False 86400000000 0) = Inr (Fin st 0 y)"
    using dec_fix_zero_ex [of st "x"] by (auto simp add: dec_truediv_zero_dividend)
  have fin: "\<exists>c' e'. dec_add (Fin False cp ep) (Fin st 0 y) = Inr (Fin False c' e') \<and>
               trunc False c' e' = trunc False cp ep"
  proof (cases "cp = 0")
    case True
    then show ?thesis
      using dec_fix_zero_ex [of False "min ep y"]
      by (auto simp add: dec_add_def check_nans_def trunc_zero)
  next
    case False
    define m where "m = max (min ep y) (ep - 51)"
    define k where "k = nat (ep - m)"
    have k: "k \<le> 51" "m = ep - int k" by (simp_all add: k_def m_def)
    have "dec_add (Fin False cp ep) (Fin st 0 y) = dec_fix (Fin False (cp * 10 ^ k) (ep - int k))"
      using False k(2) by (simp add: dec_add_zero_right prec_def m_def [symmetric] k_def [symmetric])
    then show ?thesis using mul_padded [OF assms(1) k(1) assms(2,3), of False] by simp
  qed
  show ?thesis
    using fin by (simp add: impl_calculate_linear_yield_def and_then_def Decimal_million Decimal_day
        pr prt dv yl)
qed

lemma if_Inl_Fin: "(if b then Inl x else Inr (Fin s c e)) = Inr d \<Longrightarrow> d \<noteq> NaN q"
  by (cases b) auto

lemma fix_round_finite: "fix_round s c e m = Inr d \<Longrightarrow> d \<noteq> NaN q"
  unfolding fix_round_def Let_def by (rule if_Inl_Fin)

lemma dec_fix_finite:
  assumes "dec_fix (Fin s c e) = Inr d"
  shows "d \<noteq> NaN q"
proof (cases "c = 0")
  case True
  then show ?thesis using assms by (auto simp add: dec_fix_zero)
next
  case c: False
  show ?thesis
  proof (cases "Etop < int (ndigits c) + e - int prec")
    case True
    then show ?thesis using assms c by (simp add: dec_fix_def Let_def)
  next
    case t: False
    show ?thesis
    proof (cases "e < max (int (ndigits c) + e - int prec) Etiny")
      case True
      then have "fix_round s c e (max (int (ndigits c) + e - int prec) Etiny) = Inr d"
        using assms c t by (simp add: dec_fix_def Let_def)
      then show ?thesis by (rule fix_round_finite)
    next
      case False
      then have "d = Fin s c e" using assms c t by (simp add: dec_fix_def Let_def)
      then show ?thesis by simp
    qed
  qed
qed

lemma pow_one_value:
  "pow_one False 0 td = Fin False 1 0 \<or> pow_one False 0 td = Fin False (10 ^ 49) (- 49)"
proof (cases td)
  case (Fin so co eo)
  show ?thesis
  proof (cases "isinteger (Fin so co eo)")
    case True
    then show ?thesis using Fin by (simp add: pow_one_def Let_def prec_def)
  next
    case False
    then show ?thesis using Fin by (simp add: pow_one_def Let_def prec_def)
  qed
next
  case (Inf x)
  then show ?thesis by (simp add: pow_one_def Let_def prec_def)
next
  case (NaN x)
  then show ?thesis by (simp add: pow_one_def Let_def prec_def)
qed

lemma pow_one_cases:
  assumes "td \<noteq> NaN True" "td \<noteq> NaN False"
  shows "dec_pow pw (Fin False 1 0) td = Inr (Fin False 1 0) \<or>
         dec_pow pw (Fin False 1 0) td = Inr (Fin False (10 ^ 49) (- 49))"
proof (cases "is_zero td")
  case True
  then show ?thesis using assms by (simp add: dec_pow_def check_nans_def is_zero_def)
next
  case False
  then have "dec_pow pw (Fin False 1 0) td = Inr (pow_one False 0 td)"
    using assms
    by (simp add: dec_pow_def check_nans_def is_zero_def dec_sign_def Let_def del: One_nat_def)
  then show ?thesis using pow_one_value [of td] by auto
qed

lemma dec_truediv_finite:
  assumes "dec_truediv (Fin sa ca ea) (Fin sb cb eb) = Inr d"
  shows "d \<noteq> NaN q"
proof (cases "cb = 0")
  case True
  then show ?thesis using assms by (simp add: dec_truediv_by_zero split: if_split_asm)
next
  case cb: False
  show ?thesis
  proof (cases "ca = 0")
    case True
    then have "dec_fix (Fin (sa \<noteq> sb) 0 (ea - eb)) = Inr d"
      using assms cb by (simp add: dec_truediv_zero_dividend)
    then show ?thesis by (rule dec_fix_finite)
  next
    case False
    then show ?thesis
      using assms cb
      by (auto simp add: dec_truediv_def check_nans_def Let_def
            split: if_split_asm prod.split_asm dest: dec_fix_finite)
  qed
qed

lemma compound_zero_rate:
  assumes "cp < 10 ^ 50" "- 999997 \<le> ep" "ep \<le> 999950"
    and "dec_truediv T (Fin False 86400 0) = Inr td" "td \<noteq> NaN True" "td \<noteq> NaN False"
  shows "\<exists>c' e'. impl_calculate_compound_yield pw (Fin False cp ep) (Fin False 0 0) T =
           Inr (Fin False c' e') \<and> trunc False c' e' = trunc False cp ep"
proof -
  have dr: "dec_truediv (Fin False 0 0) (Fin False 1000000 0) = Inr (Fin False 0 0)"
    by (simp add: dec_truediv_zero_dividend dec_fix_zero_plain)
  have base: "dec_add (Fin False 1 0) (Fin False 0 0) = Inr (Fin False 1 0)"
    by (simp add: dec_add_zero_right dec_fix_plain prec_def del: One_nat_def)
  have one: "\<exists>c' e'. dec_mul (Fin False cp ep) (Fin False 1 0) = Inr (Fin False c' e') \<and>
               trunc False c' e' = trunc False cp ep"
    using assms(1,2,3) by (simp add: dec_mul_one del: One_nat_def)
  have "dec_mul (Fin False cp ep) (Fin False (10 ^ 49) (- 49)) =
          dec_fix (Fin False (cp * 10 ^ 49) (ep - int 49))"
    by (simp add: dec_mul_Fin)
  then have pad: "\<exists>c' e'. dec_mul (Fin False cp ep) (Fin False (10 ^ 49) (- 49)) =
               Inr (Fin False c' e') \<and> trunc False c' e' = trunc False cp ep"
    using mul_padded [OF assms(1) _ assms(2,3), of 49 False] by simp
  show ?thesis
    using pow_one_cases [OF assms(5,6), of pw] one pad
    by (auto simp add: impl_calculate_compound_yield_def and_then_def Decimal_million Decimal_day
        Decimal_1 dr base assms(4) simp del: One_nat_def)
qed


lemma linear_51_digits:
  "impl_calculate_linear_yield (Fin False 100000000000000000000000000000000000000000000000001 0) (Fin False 0 0) (Fin False 0 0) =
     Inr (Fin False 10000000000000000000000000000000000000000000000000 1)"
  by (simp add: impl_calculate_linear_yield_def and_then_def Decimal_million Decimal_day
        dec_mul_Fin dec_fix_zero_plain dec_fix_plain dec_truediv_zero_dividend
        dec_add_zero_right prec_def fix_51_digits)

text \<open>
  Claim C4 says that with a zero rate both yields return the encoding of the principal
  truncated, for every non-negative principal and every time. The sum
  \<open>principal + 0\<close> of the linear yield and the product \<open>principal * 1\<close> of the compound
  yield are rounded to the 50 digits of the context: for the principal \<open>10^50 + 1\<close>, of
  51 digits, both return the encoding of \<open>10^50\<close>.
\<close>

theorem zero_rate_51_digits_rounded:
  "\<forall>pw. calculate_linear_yield ''100000000000000000000000000000000000000000000000001'' ''0'' ''0'' =
       Inr ''0x0000000000000000000000446c3b15f9926687d2c40534fdb564000000000000'' \<and>
     calculate_compound_yield pw ''100000000000000000000000000000000000000000000000001'' ''0'' ''0'' =
       Inr ''0x0000000000000000000000446c3b15f9926687d2c40534fdb564000000000000'' \<and>
     Decimal ''100000000000000000000000000000000000000000000000001'' = Inr (Fin False 100000000000000000000000000000000000000000000000001 0) \<and>
     impl_format_result (Fin False 100000000000000000000000000000000000000000000000001 0) =
       Inr ''0x0000000000000000000000446c3b15f9926687d2c40534fdb564000000000001''"
  by (simp add: calculate_linear_yield_def calculate_compound_yield_def and_then_def Decimal_0
        Decimal_51_digits linear_51_digits compound_51_digits format_10_50 format_51_digits)

text \<open>
  Claim C4, amended: for a principal that parses to a non-negative finite number
  \<open>cp * 10^ep\<close> of at most 50 digits (\<open>cp < 10^50\<close>, with \<open>-999997 \<le> ep \<le> 999950\<close>) and a
  time that parses to a finite number for which \<open>time_seconds / 86400\<close> is computed
  without an exception, \<open>calculate_linear_yield(p, "0", t)\<close> and
  \<open>calculate_compound_yield(p, "0", t)\<close> both return the encoding of the principal
  truncated towards zero: \<open>0x\<close> followed by \<open>hex(int(p))[2:].zfill(64)\<close>.
\<close>

theorem zero_rate_no_growth:
  assumes "Decimal principal' = Inr (Fin False cp ep)" "cp < 10 ^ 50" "- 999997 \<le> ep" "ep \<le> 999950"
    and "Decimal time_seconds = Inr (Fin st ct et)"
    and "dec_truediv (Fin st ct et) (Fin False 86400 0) = Inr time_days"
  shows "calculate_linear_yield principal' ''0'' time_seconds =
           Inr (''0x'' @ zfill 64 (drop 2 (hex (trunc False cp ep)))) \<and>
         calculate_compound_yield pw principal' ''0'' time_seconds =
           Inr (''0x'' @ zfill 64 (drop 2 (hex (trunc False cp ep))))"
proof -
  obtain c1 e1 where l:
    "impl_calculate_linear_yield (Fin False cp ep) (Fin False 0 0) (Fin st ct et) =
       Inr (Fin False c1 e1)" "trunc False c1 e1 = trunc False cp ep"
    using linear_zero_rate [OF assms(2,3,4)] by blast
  have nn: "time_days \<noteq> NaN True" "time_days \<noteq> NaN False"
    using dec_truediv_finite [OF assms(6)] by simp_all
  obtain c2 e2 where c:
    "impl_calculate_compound_yield pw (Fin False cp ep) (Fin False 0 0) (Fin st ct et) =
       Inr (Fin False c2 e2)" "trunc False c2 e2 = trunc False cp ep"
    using compound_zero_rate [OF assms(2,3,4,6) nn] by blast
  show ?thesis
    using assms(1,5) l c
    by (simp add: calculate_linear_yield_def calculate_compound_yield_def and_then_def
          Decimal_0 impl_format_result_def dec_int_def)
qed

theorem zero_rate_no_growth_witness:
  "\<forall>pw. Decimal ''1000'' = Inr (Fin False 1000 0) \<and> (1000::nat) < 10 ^ 50 \<and>
     Decimal ''43200'' = Inr (Fin False 43200 0) \<and>
     dec_truediv (Fin False 43200 0) (Fin False 86400 0) = Inr (Fin False 5 (- 1)) \<and>
     calculate_linear_yield ''1000'' ''0'' ''43200'' =
       Inr (''0x'' @ zfill 64 (drop 2 (hex (trunc False 1000 0)))) \<and>
     calculate_compound_yield pw ''1000'' ''0'' ''43200'' =
       Inr (''0x'' @ zfill 64 (drop 2 (hex (trunc False 1000 0))))"
proof (intro allI)
  fix pw
  have b: "(1000::nat) < 10 ^ 50" "- 999997 \<le> (0::int)" "(0::int) \<le> 999950" by simp_all
  note a = zero_rate_no_growth [where pw = pw, OF Decimal_1000 b Decimal_43200 half_day]
  show "Decimal ''1000'' = Inr (Fin False 1000 0) \<and> (1000::nat) < 10 ^ 50 \<and>
     Decimal ''43200'' = Inr (Fin False 43200 0) \<and>
     dec_truediv (Fin False 43200 0) (Fin False 86400 0) = Inr (Fin False 5 (- 1)) \<and>
     calculate_linear_yield ''1000'' ''0'' ''43200'' =
       Inr (''0x'' @ zfill 64 (drop 2 (hex (trunc False 1000 0)))) \<and>
     calculate_compound_yield pw ''1000'' ''0'' ''43200'' =
       Inr (''0x'' @ zfill 64 (drop 2 (hex (trunc False 1000 0))))"
    using a by (simp add: Decimal_1000 Decimal_43200 half_day)
qed

section \<open>Compound yield over whole days\<close>














lemma Decimal_172800: "Decimal ''172800'' = Inr (Fin False 172800 0)"
  by (simp add: parse_defs ndigits.simps)





end
